theory Spec2Isabelle
  imports Main
begin

section \<open>The persistent recovery store (helpers/self\_healing.py)\<close>

text \<open>
  \<^verbatim>\<open>SelfHealing\<close> keeps one JSON document in the file \<^verbatim>\<open>test_data.json\<close>. Every
  class method begins with \<^verbatim>\<open>_load_data()\<close> and the writers end with
  \<^verbatim>\<open>_save_data(data)\<close>; nothing is cached between calls, so the state of the store is
  the state of the backing file.

  The dictionary \<^verbatim>\<open>data\<close> only ever holds the four keys the class writes. It is modelled
  as a record with one optional field for each key (\<open>None\<close>: the key is not in the
  dictionary). Tokens are strings and booking ids are integers, as annotated in
  \<^verbatim>\<open>api_client.py\<close>; \<^verbatim>\<open>booking_ids\<close> is a list, as in the code. The two timestamps are
  written as \<^verbatim>\<open>str(datetime.now())\<close>; the model stores the clock reading itself, which
  every caller passes in as the argument \<open>now\<close>.
\<close>

type_synonym datetime = int

record ledger =
  token :: "string option"
  token_timestamp :: "datetime option"
  booking_ids :: "int list option"
  last_updated :: "datetime option"

definition empty_ledger :: ledger where
  "empty_ledger =
     \<lparr>token = None, token_timestamp = None, booking_ids = None, last_updated = None\<rparr>"

text \<open>
  The backing file, classified by what \<^verbatim>\<open>_load_data\<close> meets when it reads it:
  \<^item> \<open>Absent\<close>: \<^verbatim>\<open>os.path.exists\<close> is false;
  \<^item> \<open>Unreadable\<close>: the path exists but the process may not read it, so \<^verbatim>\<open>open\<close>
    raises \<^verbatim>\<open>PermissionError\<close>;
  \<^item> \<open>Undecodable\<close>: the file exists but its bytes are not text in the encoding it is
    opened with (a byte \<^verbatim>\<open>0xFF\<close> under UTF-8), so the \<^verbatim>\<open>f.read()\<close> inside
    \<^verbatim>\<open>json.load\<close> raises \<^verbatim>\<open>UnicodeDecodeError\<close>;
  \<^item> \<open>Malformed\<close>: the file is text but not JSON, \<^verbatim>\<open>json.load\<close> raises
    \<^verbatim>\<open>json.JSONDecodeError\<close>;
  \<^item> \<open>Document d\<close>: the file holds the JSON object \<open>d\<close>.

  A file holding well-formed JSON of another shape than the ledger is not represented.
  Writing (\<^verbatim>\<open>open(.., "w")\<close>, \<^verbatim>\<open>json.dump\<close>) is taken to succeed; every method that
  writes has loaded the file before.
\<close>

datatype backing_file = Absent | Unreadable | Undecodable | Malformed | Document ledger

datatype error =
  PermissionError
  | UnicodeDecodeError
  | ConnectionError
  | JSONDecodeError
  | AttributeError

text \<open>
  \<^verbatim>\<open>_load_data\<close>: the only handler is \<^verbatim>\<open>except json.JSONDecodeError\<close>; any other
  exception raised while reading leaves the function.
\<close>

definition load_data :: "backing_file \<Rightarrow> error + ledger" where
  "load_data f =
     (case f of
        Absent \<Rightarrow> Inr empty_ledger
      | Unreadable \<Rightarrow> Inl PermissionError
      | Undecodable \<Rightarrow> Inl UnicodeDecodeError
      | Malformed \<Rightarrow> Inr empty_ledger
      | Document d \<Rightarrow> Inr d)"

definition save_data :: "ledger \<Rightarrow> backing_file" where
  "save_data d = Document d"

definition store_token :: "datetime \<Rightarrow> string \<Rightarrow> backing_file \<Rightarrow> error + backing_file" where
  "store_token now t f =
     (case load_data f of
        Inl e \<Rightarrow> Inl e
      | Inr d \<Rightarrow> Inr (save_data (d\<lparr>token := Some t, token_timestamp := Some now\<rparr>)))"

definition get_token :: "backing_file \<Rightarrow> error + string option" where
  "get_token f = (case load_data f of Inl e \<Rightarrow> Inl e | Inr d \<Rightarrow> Inr (token d))"

text \<open>\<^verbatim>\<open>data.get("booking_ids", [])\<close>, also the list after \<^verbatim>\<open>data["booking_ids"] = []\<close>.\<close>

definition ids_of :: "ledger \<Rightarrow> int list" where
  "ids_of d = (case booking_ids d of None \<Rightarrow> [] | Some xs \<Rightarrow> xs)"

definition store_booking_id :: "datetime \<Rightarrow> int \<Rightarrow> backing_file \<Rightarrow> error + backing_file" where
  "store_booking_id now i f =
     (case load_data f of
        Inl e \<Rightarrow> Inl e
      | Inr d \<Rightarrow>
          Inr (save_data
            (d\<lparr>booking_ids := Some (if i \<in> set (ids_of d) then ids_of d else ids_of d @ [i]),
               last_updated := Some now\<rparr>)))"

definition get_booking_ids :: "backing_file \<Rightarrow> error + int list" where
  "get_booking_ids f = (case load_data f of Inl e \<Rightarrow> Inl e | Inr d \<Rightarrow> Inr (ids_of d))"

text \<open>
  \<^verbatim>\<open>remove_booking_id\<close> saves only inside the \<^verbatim>\<open>if\<close>; \<^verbatim>\<open>list.remove\<close> deletes the first
  occurrence.
\<close>

definition remove_booking_id :: "int \<Rightarrow> backing_file \<Rightarrow> error + backing_file" where
  "remove_booking_id i f =
     (case load_data f of
        Inl e \<Rightarrow> Inl e
      | Inr d \<Rightarrow>
          (case booking_ids d of
             None \<Rightarrow> Inr f
           | Some xs \<Rightarrow>
               if i \<in> set xs then Inr (save_data (d\<lparr>booking_ids := Some (remove1 i xs)\<rparr>))
               else Inr f))"

text \<open>\<^verbatim>\<open>SelfHealing.cleanup_test_data\<close>: load, then \<^verbatim>\<open>_save_data({})\<close>.\<close>

definition SelfHealing_cleanup_test_data :: "backing_file \<Rightarrow> error + backing_file" where
  "SelfHealing_cleanup_test_data f =
     (case load_data f of Inl e \<Rightarrow> Inl e | Inr d \<Rightarrow> Inr (save_data empty_ledger))"

section \<open>The recovery-aware client session (helpers/api\_client.py)\<close>

text \<open>
  What lies outside the program is an environment \<open>E\<close>:
  \<^item> \<open>server E\<close>: the remote service behind \<^verbatim>\<open>requests.Session\<close> with its retry adapter.
    One call of \<^verbatim>\<open>session.post\<close> or \<^verbatim>\<open>session.delete\<close> either raises or returns
    a response; the reply may depend on every request sent before.
  \<^item> \<open>clock E n\<close>: what the \<open>n\<close>-th call of \<^verbatim>\<open>datetime.now()\<close> returns, in
    microseconds.
  \<^item> \<open>response_json E\<close>: \<^verbatim>\<open>Response.json()\<close> followed by \<^verbatim>\<open>.get\<close>, on the bytes of a
    body: \<^verbatim>\<open>JSONDecodeError\<close> when the body is not JSON, \<^verbatim>\<open>AttributeError\<close> when it is
    JSON but not an object, and otherwise the two members the client reads
    (\<open>None\<close>: the member is missing or \<^verbatim>\<open>null\<close>).
  \<^item> \<open>getenv E\<close>: the process environment variables.

  Strings are byte strings (\<^verbatim>\<open>str.encode\<close> is the identity); the URL and header f-strings
  are kept as their parts.
\<close>

type_synonym booking_data = "(string \<times> string) list"

datatype request =
  POST_auth string string string
  | POST_booking string booking_data
  | DELETE_booking string int "string option"

record response =
  status_code :: int
  content :: string

datatype reply = Raises error | Returns response

record json_object =
  token_member :: "string option"
  bookingid_member :: "int option"

record env =
  server :: "request list \<Rightarrow> request \<Rightarrow> reply"
  clock :: "nat \<Rightarrow> datetime"
  response_json :: "string \<Rightarrow> error + json_object"
  getenv :: "string \<Rightarrow> string option"

datatype message =
  Recovered_token
  | Found_booking_ids nat
  | Using_existing_token
  | Authenticated_and_stored
  | No_token_received
  | Stored_booking_id int
  | Removed_booking_id int
  | Failed_to_delete int error
  | Cleaned_up

datatype log_record = INFO message | WARNING message

text \<open>
  The state a call can change: the backing file, the attributes of the client object, the
  requests sent so far, the number of clock readings taken and the log.
\<close>

record world =
  data_file :: backing_file
  self_base_url :: string
  self_username :: string
  self_password :: string
  self_token :: "string option"
  self_token_expiry :: "datetime option"
  sent :: "request list"
  ticks :: nat
  logged :: "log_record list"

definition send :: "env \<Rightarrow> request \<Rightarrow> world \<Rightarrow> reply \<times> world" where
  "send E rq w = (server E (sent w) rq, w\<lparr>sent := sent w @ [rq]\<rparr>)"

definition datetime_now :: "env \<Rightarrow> world \<Rightarrow> datetime \<times> world" where
  "datetime_now E w = (clock E (ticks w), w\<lparr>ticks := Suc (ticks w)\<rparr>)"

definition logger :: "log_record \<Rightarrow> world \<Rightarrow> world" where
  "logger r w = w\<lparr>logged := logged w @ [r]\<rparr>"

text \<open>\<^verbatim>\<open>timedelta(hours=1)\<close> in microseconds.\<close>

definition one_hour :: int where
  "one_hour = 3600000000"

text \<open>
  Python truth values: \<^verbatim>\<open>None\<close> and the empty string are false, and so is the integer
  \<^verbatim>\<open>0\<close> in \<^verbatim>\<open>if booking_id:\<close>.
\<close>

definition truthy_str :: "string option \<Rightarrow> bool" where
  "truthy_str v = (case v of None \<Rightarrow> False | Some s \<Rightarrow> s \<noteq> [])"

text \<open>
  Calls of the store from the session. \<^verbatim>\<open>store_token\<close> and \<^verbatim>\<open>store_booking_id\<close> read
  the clock after a successful load, so a call that raises takes no reading.
\<close>

definition timed_write ::
  "env \<Rightarrow> (datetime \<Rightarrow> backing_file \<Rightarrow> error + backing_file) \<Rightarrow> world \<Rightarrow> (error + unit) \<times> world"
where
  "timed_write E op w =
     (case op (clock E (ticks w)) (data_file w) of
        Inl e \<Rightarrow> (Inl e, w)
      | Inr f' \<Rightarrow> (Inr (), w\<lparr>data_file := f', ticks := Suc (ticks w)\<rparr>))"

definition untimed_write ::
  "(backing_file \<Rightarrow> error + backing_file) \<Rightarrow> world \<Rightarrow> (error + unit) \<times> world"
where
  "untimed_write op w =
     (case op (data_file w) of
        Inl e \<Rightarrow> (Inl e, w)
      | Inr f' \<Rightarrow> (Inr (), w\<lparr>data_file := f'\<rparr>))"

definition attempt_self_healing :: "world \<Rightarrow> (error + unit) \<times> world" where
  "attempt_self_healing w =
     (case get_token (data_file w) of
        Inl e \<Rightarrow> (Inl e, w)
      | Inr stored_token \<Rightarrow>
          let w1 = (if truthy_str stored_token
                    then logger (INFO Recovered_token) (w\<lparr>self_token := stored_token\<rparr>)
                    else w)
          in (case get_booking_ids (data_file w1) of
                Inl e \<Rightarrow> (Inl e, w1)
              | Inr stored_booking_ids \<Rightarrow>
                  (Inr (),
                   if stored_booking_ids \<noteq> []
                   then logger (INFO (Found_booking_ids (length stored_booking_ids))) w1
                   else w1)))"

definition getenv_default :: "env \<Rightarrow> string \<Rightarrow> string \<Rightarrow> string" where
  "getenv_default E k d = (case getenv E k of None \<Rightarrow> d | Some v \<Rightarrow> v)"

text \<open>\<^verbatim>\<open>BookingAPIClient.__init__\<close>; \<^verbatim>\<open>a or b\<close> is \<^verbatim>\<open>a\<close> when \<^verbatim>\<open>a\<close> is true.\<close>

definition init :: "env \<Rightarrow> string option \<Rightarrow> string option \<Rightarrow> world \<Rightarrow> (error + unit) \<times> world" where
  "init E username password w =
     attempt_self_healing
       (w\<lparr>self_base_url := getenv_default E ''BASE_URL'' ''https://restful-booker.herokuapp.com'',
          self_username := (case username of
                              None \<Rightarrow> getenv_default E ''API_USERNAME'' ''admin''
                            | Some u \<Rightarrow> if u \<noteq> [] then u
                                        else getenv_default E ''API_USERNAME'' ''admin''),
          self_password := (case password of
                              None \<Rightarrow> getenv_default E ''API_PASSWORD'' ''password123''
                            | Some p \<Rightarrow> if p \<noteq> [] then p
                                        else getenv_default E ''API_PASSWORD'' ''password123''),
          self_token := None,
          self_token_expiry := None\<rparr>)"

text \<open>\<^verbatim>\<open>_is_token_valid\<close> reads the clock only when both attributes are true.\<close>

definition is_token_valid :: "env \<Rightarrow> world \<Rightarrow> bool \<times> world" where
  "is_token_valid E w =
     (if \<not> truthy_str (self_token w) then (False, w)
      else case self_token_expiry w of
             None \<Rightarrow> (False, w)
           | Some expiry \<Rightarrow> (case datetime_now E w of (now, w1) \<Rightarrow> (now < expiry, w1)))"

definition synthetic_response :: "string \<Rightarrow> response" where
  \<open>synthetic_response t = \<lparr>status_code = 200, content = ''{"token":"'' @ t @ ''"}''\<rparr>\<close>

definition authenticate :: "env \<Rightarrow> world \<Rightarrow> (error + response) \<times> world" where
  "authenticate E w =
     (case is_token_valid E w of
        (True, w1) \<Rightarrow>
          (case self_token w1 of
             None \<Rightarrow> (Inl AttributeError, logger (INFO Using_existing_token) w1)
           | Some t \<Rightarrow> (Inr (synthetic_response t), logger (INFO Using_existing_token) w1))
      | (False, w1) \<Rightarrow>
          (case send E (POST_auth (self_base_url w1) (self_username w1) (self_password w1)) w1 of
             (Raises e, w2) \<Rightarrow> (Inl e, w2)
           | (Returns r, w2) \<Rightarrow>
               if status_code r = 200 then
                 (case response_json E (content r) of
                    Inl e \<Rightarrow> (Inl e, w2)
                  | Inr body \<Rightarrow>
                      let w3 = w2\<lparr>self_token := token_member body\<rparr> in
                      (case token_member body of
                         None \<Rightarrow> (Inr r, logger (WARNING No_token_received) w3)
                       | Some t \<Rightarrow>
                           if t \<noteq> [] then
                             (case datetime_now E w3 of
                                (now, w4) \<Rightarrow>
                                  (case timed_write E (\<lambda>n. store_token n t)
                                          (w4\<lparr>self_token_expiry := Some (now + one_hour)\<rparr>) of
                                     (Inl e, w5) \<Rightarrow> (Inl e, w5)
                                   | (Inr u, w5) \<Rightarrow>
                                       (Inr r, logger (INFO Authenticated_and_stored) w5)))
                           else (Inr r, logger (WARNING No_token_received) w3)))
               else (Inr r, w2)))"

definition create_booking :: "env \<Rightarrow> booking_data \<Rightarrow> world \<Rightarrow> (error + response) \<times> world" where
  "create_booking E booking w =
     (case send E (POST_booking (self_base_url w) booking) w of
        (Raises e, w1) \<Rightarrow> (Inl e, w1)
      | (Returns r, w1) \<Rightarrow>
          if status_code r = 200 then
            (case response_json E (content r) of
               Inl e \<Rightarrow> (Inl e, w1)
             | Inr body \<Rightarrow>
                 (case bookingid_member body of
                    None \<Rightarrow> (Inr r, w1)
                  | Some booking_id \<Rightarrow>
                      if booking_id \<noteq> 0 then
                        (case timed_write E (\<lambda>n. store_booking_id n booking_id) w1 of
                           (Inl e, w2) \<Rightarrow> (Inl e, w2)
                         | (Inr u, w2) \<Rightarrow> (Inr r, logger (INFO (Stored_booking_id booking_id)) w2))
                      else (Inr r, w1)))
          else (Inr r, w1))"

text \<open>
  \<^verbatim>\<open>delete_booking\<close>: the response of the \<^verbatim>\<open>authenticate()\<close> it may call is dropped, an
  exception of it is not. The token in the headers is the attribute after that call.
\<close>

definition send_delete :: "env \<Rightarrow> int \<Rightarrow> world \<Rightarrow> (error + response) \<times> world" where
  "send_delete E booking_id w =
     (case send E (DELETE_booking (self_base_url w) booking_id (self_token w)) w of
        (Raises e, w1) \<Rightarrow> (Inl e, w1)
      | (Returns r, w1) \<Rightarrow>
          if status_code r = 201 then
            (case untimed_write (remove_booking_id booking_id) w1 of
               (Inl e, w2) \<Rightarrow> (Inl e, w2)
             | (Inr u, w2) \<Rightarrow> (Inr r, logger (INFO (Removed_booking_id booking_id)) w2))
          else (Inr r, w1))"

definition delete_booking :: "env \<Rightarrow> int \<Rightarrow> world \<Rightarrow> (error + response) \<times> world" where
  "delete_booking E booking_id w =
     (case is_token_valid E w of
        (True, w1) \<Rightarrow> send_delete E booking_id w1
      | (False, w1) \<Rightarrow>
          (case authenticate E w1 of
             (Inl e, w2) \<Rightarrow> (Inl e, w2)
           | (Inr a, w2) \<Rightarrow> send_delete E booking_id w2))"

text \<open>
  The loop of \<^verbatim>\<open>BookingAPIClient.cleanup_test_data\<close> over the list read at its start:
  \<^verbatim>\<open>except Exception\<close> catches every error of the model and logs a warning.
\<close>

fun sweep :: "env \<Rightarrow> int list \<Rightarrow> world \<Rightarrow> world" where
  "sweep E [] w = w"
| "sweep E (booking_id # rest) w =
     (case delete_booking E booking_id w of
        (Inl e, w1) \<Rightarrow> sweep E rest (logger (WARNING (Failed_to_delete booking_id e)) w1)
      | (Inr r, w1) \<Rightarrow> sweep E rest w1)"

definition cleanup_test_data :: "env \<Rightarrow> world \<Rightarrow> (error + unit) \<times> world" where
  "cleanup_test_data E w =
     (case get_booking_ids (data_file w) of
        Inl e \<Rightarrow> (Inl e, w)
      | Inr ids \<Rightarrow>
          (case untimed_write SelfHealing_cleanup_test_data (sweep E ids w) of
             (Inl e, w1) \<Rightarrow> (Inl e, w1)
           | (Inr u, w1) \<Rightarrow> (Inr (), logger (INFO Cleaned_up) w1)))"

section \<open>Sequences of store operations\<close>

text \<open>
  The four writers of \<^verbatim>\<open>SelfHealing\<close> as commands, each with the clock reading it takes,
  and a run of them in order on one backing file; a run stops at the first exception.
\<close>

datatype store_op =
  Store_token datetime string
  | Store_booking_id datetime int
  | Remove_booking_id int
  | Cleanup

fun apply_op :: "store_op \<Rightarrow> backing_file \<Rightarrow> error + backing_file" where
  "apply_op (Store_token now t) f = store_token now t f"
| "apply_op (Store_booking_id now i) f = store_booking_id now i f"
| "apply_op (Remove_booking_id i) f = remove_booking_id i f"
| "apply_op Cleanup f = SelfHealing_cleanup_test_data f"

fun run :: "store_op list \<Rightarrow> backing_file \<Rightarrow> error + backing_file" where
  "run [] f = Inr f"
| "run (x # xs) f = (case apply_op x f of Inl e \<Rightarrow> Inl e | Inr f' \<Rightarrow> run xs f')"

text \<open>
  The specification's reading of the same commands, on a set: the ids stored and not
  removed since the last full clear.
\<close>

fun pending :: "int set \<Rightarrow> store_op list \<Rightarrow> int set" where
  "pending S [] = S"
| "pending S (Store_token now t # ops) = pending S ops"
| "pending S (Store_booking_id now i # ops) = pending (insert i S) ops"
| "pending S (Remove_booking_id i # ops) = pending (S - {i}) ops"
| "pending S (Cleanup # ops) = pending {} ops"

section \<open>Framing and scenarios\<close>

text \<open>
  What every call of the session leaves of the world it started in: requests and log records
  are only appended, the base URL and the credentials are kept, and a readable backing file
  stays readable.
\<close>

definition readable :: "backing_file \<Rightarrow> bool" where
  "readable f = (case load_data f of Inl e \<Rightarrow> False | Inr d \<Rightarrow> True)"

definition grows :: "world \<Rightarrow> world \<Rightarrow> bool" where
  "grows w w' =
     ((\<exists>xs. sent w' = sent w @ xs) \<and> (\<exists>ys. logged w' = logged w @ ys)
      \<and> readable (data_file w') = readable (data_file w)
      \<and> self_base_url w' = self_base_url w
      \<and> self_username w' = self_username w
      \<and> self_password w' = self_password w)"



text \<open>
  Concrete environments for the scenarios. \<open>parse_body\<close> is \<^verbatim>\<open>Response.json()\<close> on the
  bodies that occur in them. \<open>service\<close> answers like the booking service: a token for the
  default credentials and status 200 with a reason and no token for any other, id 55 for a
  created booking, 201 for deleting booking 101, no answer at all (the request raises) for
  booking 103 and 404 for any other id.
  \<open>zero_id_service\<close> differs in numbering its first booking 0, and \<open>refusing_service\<close>
  answers every request with status 403.
\<close>

definition parse_body :: "string \<Rightarrow> error + json_object" where
  \<open>parse_body c =
     (if c = ''{"token":"abc123"}''
        then Inr \<lparr>token_member = Some ''abc123'', bookingid_member = None\<rparr>
      else if c = ''{"reason":"Bad credentials"}''
        then Inr \<lparr>token_member = None, bookingid_member = None\<rparr>
      else if c = ''{"bookingid":55}''
        then Inr \<lparr>token_member = None, bookingid_member = Some 55\<rparr>
      else if c = ''{"bookingid":0}''
        then Inr \<lparr>token_member = None, bookingid_member = Some 0\<rparr>
      else Inl JSONDecodeError)\<close>

definition service :: "request list \<Rightarrow> request \<Rightarrow> reply" where
  \<open>service history rq =
     (case rq of
        POST_auth b u p \<Rightarrow>
          if u = ''admin'' \<and> p = ''password123''
          then Returns \<lparr>status_code = 200, content = ''{"token":"abc123"}''\<rparr>
          else Returns \<lparr>status_code = 200, content = ''{"reason":"Bad credentials"}''\<rparr>
      | POST_booking b d \<Rightarrow> Returns \<lparr>status_code = 200, content = ''{"bookingid":55}''\<rparr>
      | DELETE_booking b i tok \<Rightarrow>
          if i = 101 then Returns \<lparr>status_code = 201, content = ''Created''\<rparr>
          else if i = 103 then Raises ConnectionError
          else Returns \<lparr>status_code = 404, content = ''Not Found''\<rparr>)\<close>

definition zero_id_service :: "request list \<Rightarrow> request \<Rightarrow> reply" where
  \<open>zero_id_service history rq =
     (case rq of
        POST_booking b d \<Rightarrow> Returns \<lparr>status_code = 200, content = ''{"bookingid":0}''\<rparr>
      | _ \<Rightarrow> service history rq)\<close>

definition refusing_service :: "request list \<Rightarrow> request \<Rightarrow> reply" where
  "refusing_service history rq = Returns \<lparr>status_code = 403, content = ''Forbidden''\<rparr>"

definition environment :: "(request list \<Rightarrow> request \<Rightarrow> reply) \<Rightarrow> env" where
  "environment srv =
     \<lparr>server = srv, clock = (\<lambda>n. int n), response_json = parse_body, getenv = (\<lambda>k. None)\<rparr>"

text \<open>A client object with the given attributes on the given backing file, before any call.\<close>

definition client ::
  "backing_file \<Rightarrow> string \<Rightarrow> string \<Rightarrow> string option \<Rightarrow> datetime option \<Rightarrow> world"
where
  "client f u p tok expiry =
     \<lparr>data_file = f, self_base_url = ''https://restful-booker.herokuapp.com'',
      self_username = u, self_password = p, self_token = tok, self_token_expiry = expiry,
      sent = [], ticks = 0, logged = []\<rparr>"

definition ledger_with :: "string option \<Rightarrow> int list \<Rightarrow> backing_file" where
  "ledger_with tok ids =
     Document \<lparr>token = tok, token_timestamp = None, booking_ids = Some ids, last_updated = None\<rparr>"

section \<open>Properties of the store\<close>

lemmas store_defs =
  load_data_def save_data_def store_token_def get_token_def ids_of_def store_booking_id_def
  get_booking_ids_def remove_booking_id_def SelfHealing_cleanup_test_data_def empty_ledger_def

lemmas session_defs =
  send_def datetime_now_def logger_def one_hour_def truthy_str_def
  timed_write_def untimed_write_def attempt_self_healing_def getenv_default_def init_def
  is_token_valid_def synthetic_response_def authenticate_def create_booking_def
  send_delete_def delete_booking_def cleanup_test_data_def

lemmas scenario_defs =
  client_def environment_def ledger_with_def service_def zero_id_service_def
  refusing_service_def parse_body_def

lemma load_save [simp]: "load_data (save_data d) = Inr d"
  by (simp add: load_data_def save_data_def)

lemma ids_of_update [simp]:
  "ids_of (d\<lparr>booking_ids := Some xs, last_updated := u\<rparr>) = xs"
  by (simp add: ids_of_def)

lemma store_token_ok:
  assumes "load_data f = Inr d"
  shows "store_token now t f = Inr (save_data (d\<lparr>token := Some t, token_timestamp := Some now\<rparr>))"
  using assms by (simp add: store_token_def)

lemma store_booking_id_ok:
  assumes "load_data f = Inr d"
  shows "store_booking_id now i f = Inr (save_data
      (d\<lparr>booking_ids := Some (if i \<in> set (ids_of d) then ids_of d else ids_of d @ [i]),
         last_updated := Some now\<rparr>))"
  using assms by (simp add: store_booking_id_def)

lemma count_list_append_new:
  "count_list (xs @ [i]) i = Suc (count_list xs i)"
  by (induction xs) simp_all

subsection \<open>Loading\<close>

text \<open>
  C4, as the code has it. \<^verbatim>\<open>_load_data\<close> returns the empty ledger for an absent file and
  for a file that is not JSON, and the stored ledger for a JSON document. It raises exactly
  when opening or reading the file raises something other than \<^verbatim>\<open>json.JSONDecodeError\<close>:
  here, when the file may not be read or its bytes are not text.
\<close>

theorem load_data_degrades:
  "load_data Absent = Inr empty_ledger \<and> load_data Malformed = Inr empty_ledger
   \<and> load_data (Document d) = Inr d
   \<and> isl (load_data f) = (f = Unreadable \<or> f = Undecodable)"
  by (cases f) (simp_all add: load_data_def)

text \<open>
  C4 as stated, with every read failure degrading to the empty ledger, fails: a backing
  file that exists and may not be read makes \<^verbatim>\<open>open\<close> raise \<^verbatim>\<open>PermissionError\<close>, which
  \<^verbatim>\<open>except json.JSONDecodeError\<close> does not catch.
\<close>

theorem load_data_raises: "load_data Unreadable = Inl PermissionError"
  by (simp add: load_data_def)

subsection \<open>Storing an id twice\<close>

text \<open>
  C5, as the code has it. In a store in state \<open>d\<close>, two calls of \<^verbatim>\<open>store_booking_id(i)\<close>
  both succeed. The second leaves the id list as the first left it, and storing an id that
  is already present leaves the list as it was. The list then holds \<open>i\<close> and the ids it held
  before, and \<open>i\<close> occurs in it exactly once provided it did not occur more than once before
  the calls.
\<close>

theorem store_booking_id_twice:
  assumes "load_data f = Inr d"
  shows "\<exists>f1 f2 ids. store_booking_id t1 i f = Inr f1 \<and> store_booking_id t2 i f1 = Inr f2
     \<and> get_booking_ids f1 = Inr ids \<and> get_booking_ids f2 = Inr ids
     \<and> set ids = insert i (set (ids_of d))
     \<and> (i \<in> set (ids_of d) \<longrightarrow> ids = ids_of d)
     \<and> (count_list (ids_of d) i \<le> 1 \<longrightarrow> count_list ids i = 1)"
proof -
  define ids where "ids = (if i \<in> set (ids_of d) then ids_of d else ids_of d @ [i])"
  define f1 where
    "f1 = save_data (d\<lparr>booking_ids := Some ids, last_updated := Some t1\<rparr>)"
  define f2 where
    "f2 = save_data (d\<lparr>booking_ids := Some ids, last_updated := Some t2\<rparr>)"
  have in_ids: "i \<in> set ids"
    by (simp add: ids_def)
  have first: "store_booking_id t1 i f = Inr f1"
    using assms by (simp add: store_booking_id_def f1_def ids_def)
  have second: "store_booking_id t2 i f1 = Inr f2"
    using in_ids by (simp add: store_booking_id_def f1_def f2_def)
  have got: "get_booking_ids f1 = Inr ids" "get_booking_ids f2 = Inr ids"
    by (simp_all add: get_booking_ids_def f1_def f2_def)
  have elems: "set ids = insert i (set (ids_of d))"
    by (auto simp: ids_def)
  have kept: "ids = ids_of d" if "i \<in> set (ids_of d)"
    using that by (simp add: ids_def)
  have once: "count_list ids i = 1" if "count_list (ids_of d) i \<le> 1"
  proof (cases "i \<in> set (ids_of d)")
    case True
    then have "count_list (ids_of d) i \<noteq> 0"
      by (simp add: count_list_0_iff)
    with that True show ?thesis
      by (simp add: ids_def)
  next
    case False
    then show ?thesis
      by (simp add: ids_def count_list_append_new count_list_0_iff)
  qed
  from first second got elems kept once show ?thesis
    by blast
qed

text \<open>Id 7 stored twice in a store that tracks id 5, and id 5 stored twice in it.\<close>

theorem store_booking_id_twice_witness:
  "load_data (ledger_with None [5])
     = Inr \<lparr>token = None, token_timestamp = None, booking_ids = Some [5], last_updated = None\<rparr>
   \<and> count_list (ids_of \<lparr>token = None, token_timestamp = None, booking_ids = Some [5],
         last_updated = None\<rparr>) 7 \<le> 1
   \<and> (\<exists>f1 f2 ids. store_booking_id 1 7 (ledger_with None [5]) = Inr f1
         \<and> store_booking_id 2 7 f1 = Inr f2
         \<and> get_booking_ids f2 = Inr ids \<and> set ids = {5, 7} \<and> count_list ids 7 = 1)
   \<and> 5 \<in> set (ids_of \<lparr>token = None, token_timestamp = None, booking_ids = Some [5],
         last_updated = None\<rparr>)
   \<and> (\<exists>f1 f2. store_booking_id 1 5 (ledger_with None [5]) = Inr f1
         \<and> store_booking_id 2 5 f1 = Inr f2 \<and> get_booking_ids f2 = Inr [5])"
proof -
  let ?d = "\<lparr>token = None, token_timestamp = None, booking_ids = Some [5], last_updated = None\<rparr>"
  have h: "load_data (ledger_with None [5]) = Inr ?d"
    by (simp add: ledger_with_def load_data_def)
  have c: "count_list (ids_of ?d) 7 \<le> 1" "set (ids_of ?d) = {5}" "ids_of ?d = [5]"
    by (simp_all add: ids_of_def)
  from store_booking_id_twice [OF h, of 1 7 2] store_booking_id_twice [OF h, of 1 5 2] h c
  show ?thesis
    by auto
qed

text \<open>
  C5 as stated, for every store state, fails on a backing file whose list already holds an
  id twice: \<^verbatim>\<open>_load_data\<close> returns the list as it is, both calls find the id present and
  append nothing, and the id is still there twice.
\<close>

theorem store_booking_id_twice_duplicate:
  "store_booking_id 1 5 (ledger_with None [5, 5])
     = Inr (Document \<lparr>token = None, token_timestamp = None, booking_ids = Some [5, 5],
              last_updated = Some 1\<rparr>)
   \<and> store_booking_id 2 5
        (Document \<lparr>token = None, token_timestamp = None, booking_ids = Some [5, 5],
           last_updated = Some 1\<rparr>)
     = Inr (Document \<lparr>token = None, token_timestamp = None, booking_ids = Some [5, 5],
              last_updated = Some 2\<rparr>)
   \<and> get_booking_ids
        (Document \<lparr>token = None, token_timestamp = None, booking_ids = Some [5, 5],
           last_updated = Some 2\<rparr>)
     = Inr [5, 5]
   \<and> count_list [5, 5] (5::int) = 2"
  by (simp add: ledger_with_def store_defs)

subsection \<open>Token round trip\<close>

text \<open>
  C6. In a store in state \<open>d\<close>, \<^verbatim>\<open>store_token(t)\<close> succeeds and \<^verbatim>\<open>get_token()\<close> then
  returns \<open>t\<close>; the full clear (\<^verbatim>\<open>SelfHealing.cleanup_test_data\<close>), before or after the
  token was stored, succeeds and leaves a store whose \<^verbatim>\<open>get_token()\<close> returns \<^verbatim>\<open>None\<close>.
\<close>

theorem store_token_round_trip:
  assumes "load_data f = Inr d"
  shows "\<exists>f1 c. store_token now t f = Inr f1 \<and> get_token f1 = Inr (Some t)
     \<and> SelfHealing_cleanup_test_data f1 = Inr c \<and> SelfHealing_cleanup_test_data f = Inr c
     \<and> get_token c = Inr None"
  using assms
  by (simp add: store_token_def get_token_def SelfHealing_cleanup_test_data_def empty_ledger_def)

theorem store_token_round_trip_witness:
  "load_data Absent = Inr empty_ledger
   \<and> (\<exists>f1 c. store_token 0 ''abc123'' Absent = Inr f1 \<and> get_token f1 = Inr (Some ''abc123'')
         \<and> SelfHealing_cleanup_test_data f1 = Inr c \<and> get_token c = Inr None)"
proof -
  have h: "load_data Absent = Inr empty_ledger"
    by (simp add: load_data_def)
  from store_token_round_trip [OF h, of 0 "''abc123''"] h show ?thesis
    by auto
qed

subsection \<open>Removing an id that is not tracked\<close>

text \<open>
  C7. When \<open>i\<close> is not among the ids the store tracks, \<^verbatim>\<open>remove_booking_id(i)\<close> returns
  without raising and the backing file, hence token, timestamps and ids, is what it was.
\<close>

theorem remove_untracked_id:
  assumes "get_booking_ids f = Inr ids" and "i \<notin> set ids"
  shows "remove_booking_id i f = Inr f"
  using assms
  by (auto simp: remove_booking_id_def get_booking_ids_def ids_of_def
      split: sum.splits option.splits)

theorem remove_untracked_id_witness:
  "get_booking_ids (ledger_with (Some ''abc123'') [5]) = Inr [5] \<and> 7 \<notin> set [5::int]
   \<and> remove_booking_id 7 (ledger_with (Some ''abc123'') [5])
     = Inr (ledger_with (Some ''abc123'') [5])"
proof -
  have h: "get_booking_ids (ledger_with (Some ''abc123'') [5]) = Inr [5]" "7 \<notin> set [5::int]"
    by (simp_all add: ledger_with_def store_defs)
  from remove_untracked_id [OF h] h show ?thesis
    by simp
qed

subsection \<open>The ids a run of operations leaves\<close>

lemma apply_op_inv:
  assumes "load_data f = Inr d" and "distinct (ids_of d)"
  shows "\<exists>f' d'. apply_op x f = Inr f' \<and> load_data f' = Inr d' \<and> distinct (ids_of d')
    \<and> set (ids_of d') = pending (set (ids_of d)) [x]"
proof (cases x)
  case (Store_token now t)
  with assms show ?thesis by (simp add: store_token_def ids_of_def)
next
  case (Store_booking_id now i)
  with assms show ?thesis by (auto simp: store_booking_id_def)
next
  case (Remove_booking_id i)
  with assms show ?thesis
    by (cases "booking_ids d") (auto simp: remove_booking_id_def ids_of_def)
next
  case Cleanup
  with assms show ?thesis
    by (simp add: SelfHealing_cleanup_test_data_def ids_of_def empty_ledger_def)
qed

lemma pending_step: "pending S (x # ops) = pending (pending S [x]) ops"
  by (cases x) simp_all

lemma run_inv:
  assumes "load_data f = Inr d" and "distinct (ids_of d)"
  shows "\<exists>f' d'. run ops f = Inr f' \<and> load_data f' = Inr d' \<and> distinct (ids_of d')
    \<and> set (ids_of d') = pending (set (ids_of d)) ops"
  using assms
proof (induction ops arbitrary: f d)
  case Nil
  then show ?case by simp
next
  case (Cons x ops)
  from apply_op_inv [OF Cons.prems, of x]
  obtain f1 d1 where s: "apply_op x f = Inr f1" "load_data f1 = Inr d1" "distinct (ids_of d1)"
    "set (ids_of d1) = pending (set (ids_of d)) [x]" by blast
  from Cons.IH [OF s(2) s(3)] s(1) s(4) show ?case
    by (simp add: pending_step [of _ x ops])
qed

text \<open>
  C9. Started on an empty store (no backing file), every sequence of store operations runs
  to its end without raising, and the list \<^verbatim>\<open>booking_ids\<close> it leaves has no duplicate and
  holds exactly the ids stored and not removed since the last full clear.
\<close>

theorem reachable_booking_ids:
  "\<exists>f ids. run ops Absent = Inr f \<and> get_booking_ids f = Inr ids \<and> distinct ids
     \<and> set ids = pending {} ops"
proof -
  have "load_data Absent = Inr empty_ledger" "distinct (ids_of empty_ledger)"
    by (simp_all add: load_data_def ids_of_def empty_ledger_def)
  from run_inv [OF this, of ops] show ?thesis
    by (auto simp: get_booking_ids_def ids_of_def empty_ledger_def)
qed

section \<open>Properties of the session\<close>

subsection \<open>Framing\<close>


lemma readable_save [simp]: "readable (save_data d)"
  by (simp add: readable_def)



lemma grows_refl [simp]: "grows w w"
  by (simp add: grows_def)



lemma is_token_valid_frame:
  assumes "is_token_valid E w = (b, w1)"
  shows "w1 = w \<or> w1 = w\<lparr>ticks := Suc (ticks w)\<rparr>"
  using assms
  by (auto simp: is_token_valid_def datetime_now_def split: if_splits option.splits)


lemma is_token_valid_True:
  assumes "self_token w = Some t" and "t \<noteq> []" and "self_token_expiry w = Some expiry"
    and "clock E (ticks w) < expiry"
  shows "is_token_valid E w = (True, w\<lparr>ticks := Suc (ticks w)\<rparr>)"
  using assms by (simp add: is_token_valid_def truthy_str_def datetime_now_def)

lemma is_token_valid_no_expiry:
  assumes "self_token_expiry w = None"
  shows "is_token_valid E w = (False, w)"
  using assms by (simp add: is_token_valid_def)










subsection \<open>The cleanup sweep\<close>



subsection \<open>Authentication\<close>

text \<open>
  C2. When the client holds a token (a non-empty string, which is what \<^verbatim>\<open>if not self.token\<close>
  asks for) and an expiry that the clock has not reached, \<^verbatim>\<open>authenticate()\<close> sends no
  request and changes neither the store nor the token and its expiry; it returns a response
  with status 200 whose body is the cached token between \<^verbatim>\<open>{"token":"\<close> and \<^verbatim>\<open>"}\<close>.
\<close>

theorem authenticate_cached:
  assumes "self_token w = Some t" and "t \<noteq> []" and "self_token_expiry w = Some expiry"
    and "clock E (ticks w) < expiry"
  shows \<open>\<exists>w'. authenticate E w
        = (Inr \<lparr>status_code = 200, content = ''{"token":"'' @ t @ ''"}''\<rparr>, w')
     \<and> sent w' = sent w \<and> data_file w' = data_file w
     \<and> self_token w' = Some t \<and> self_token_expiry w' = Some expiry\<close>
  using assms is_token_valid_True [OF assms]
  by (simp add: authenticate_def synthetic_response_def logger_def)

theorem authenticate_cached_witness:
  \<open>self_token (client Absent ''admin'' ''password123'' (Some ''abc123'') (Some 5)) = Some ''abc123''
   \<and> ''abc123'' \<noteq> []
   \<and> self_token_expiry (client Absent ''admin'' ''password123'' (Some ''abc123'') (Some 5)) = Some 5
   \<and> clock (environment refusing_service)
        (ticks (client Absent ''admin'' ''password123'' (Some ''abc123'') (Some 5))) < 5
   \<and> fst (authenticate (environment refusing_service)
             (client Absent ''admin'' ''password123'' (Some ''abc123'') (Some 5)))
       = Inr \<lparr>status_code = 200, content = ''{"token":"abc123"}''\<rparr>
   \<and> sent (snd (authenticate (environment refusing_service)
             (client Absent ''admin'' ''password123'' (Some ''abc123'') (Some 5)))) = []\<close>
proof -
  let ?w = "client Absent ''admin'' ''password123'' (Some ''abc123'') (Some 5)"
  let ?E = "environment refusing_service"
  have h: "self_token ?w = Some ''abc123''" "''abc123'' \<noteq> []" "self_token_expiry ?w = Some 5"
    "clock ?E (ticks ?w) < 5"
    by (simp_all add: client_def environment_def)
  from authenticate_cached [OF h] h show ?thesis
    by (auto simp: client_def)
qed

text \<open>
  C8, as the code has it. Let \<^verbatim>\<open>authenticate()\<close> find no valid cached token and the service
  answer its request, the one request the call sends, with the response \<open>r\<close>.
  \<^item> Status 200 with a non-empty token \<open>t\<close> in the body, the store being readable: the
    call returns \<open>r\<close>, the client holds \<open>t\<close> with expiry one hour after the clock reading
    taken then, the store's token is \<open>t\<close>, and the success is logged.
  \<^item> Status 200 with no token or an empty one: the call returns \<open>r\<close>, the client's token
    becomes what the body gave, the warning \<^verbatim>\<open>Authentication succeeded but no token received\<close>
    is logged, and the expiry and the store are as before.
  \<^item> Any other status: the call returns \<open>r\<close>; token, expiry, store and log are as before
    (nothing but the list of requests sent and the clock readings taken has changed).
\<close>

theorem authenticate_remote:
  assumes "is_token_valid E w = (False, w1)"
    and "server E (sent w1) (POST_auth (self_base_url w1) (self_username w1) (self_password w1))
           = Returns r"
  shows "(status_code r = 200 \<and> response_json E (content r) = Inr body
            \<and> token_member body = Some t \<and> t \<noteq> [] \<and> load_data (data_file w) = Inr d \<longrightarrow>
          (\<exists>w'. authenticate E w = (Inr r, w') \<and> self_token w' = Some t
             \<and> self_token_expiry w' = Some (clock E (ticks w1) + one_hour)
             \<and> get_token (data_file w') = Inr (Some t)
             \<and> sent w' = sent w @ [POST_auth (self_base_url w) (self_username w) (self_password w)]
             \<and> logged w' = logged w @ [INFO Authenticated_and_stored]))
       \<and> (status_code r = 200 \<and> response_json E (content r) = Inr body
            \<and> \<not> truthy_str (token_member body) \<longrightarrow>
          (\<exists>w'. authenticate E w = (Inr r, w') \<and> self_token w' = token_member body
             \<and> self_token_expiry w' = self_token_expiry w \<and> data_file w' = data_file w
             \<and> sent w' = sent w @ [POST_auth (self_base_url w) (self_username w) (self_password w)]
             \<and> logged w' = logged w @ [WARNING No_token_received]))
       \<and> (status_code r \<noteq> 200 \<longrightarrow>
          (\<exists>w'. authenticate E w = (Inr r, w')
             \<and> w' = w1\<lparr>sent := sent w1 @
                  [POST_auth (self_base_url w1) (self_username w1) (self_password w1)]\<rparr>
             \<and> self_token w' = self_token w \<and> self_token_expiry w' = self_token_expiry w
             \<and> data_file w' = data_file w \<and> logged w' = logged w
             \<and> sent w' = sent w @ [POST_auth (self_base_url w) (self_username w) (self_password w)]))"
proof -
  from is_token_valid_frame [OF assms(1)]
  have same: "data_file w1 = data_file w" "self_token_expiry w1 = self_token_expiry w"
    "self_token w1 = self_token w" "logged w1 = logged w" "sent w1 = sent w"
    "self_base_url w1 = self_base_url w" "self_username w1 = self_username w"
    "self_password w1 = self_password w"
    by auto
  show ?thesis
    using assms same
    by (auto simp: authenticate_def send_def datetime_now_def timed_write_def logger_def
        store_token_ok get_token_def truthy_str_def split: option.splits)
qed

text \<open>
  The three cases: the default credentials, other credentials (status 200 with a reason and
  no token), and a service that answers 403.
\<close>

theorem authenticate_remote_witness:
  \<open>is_token_valid (environment service) (client Absent ''admin'' ''password123'' None None)
     = (False, client Absent ''admin'' ''password123'' None None)
   \<and> load_data Absent = Inr empty_ledger
   \<and> fst (authenticate (environment service) (client Absent ''admin'' ''password123'' None None))
     = Inr \<lparr>status_code = 200, content = ''{"token":"abc123"}''\<rparr>
   \<and> self_token_expiry (snd (authenticate (environment service)
        (client Absent ''admin'' ''password123'' None None))) = Some 3600000000
   \<and> get_token (data_file (snd (authenticate (environment service)
        (client Absent ''admin'' ''password123'' None None)))) = Inr (Some ''abc123'')
   \<and> logged (snd (authenticate (environment service)
        (client Absent ''admin'' ''password123'' None None))) = [INFO Authenticated_and_stored]
   \<and> is_token_valid (environment service) (client Absent ''invalid'' ''wrongpassword'' None None)
     = (False, client Absent ''invalid'' ''wrongpassword'' None None)
   \<and> data_file (snd (authenticate (environment service)
        (client Absent ''invalid'' ''wrongpassword'' None None))) = Absent
   \<and> logged (snd (authenticate (environment service)
        (client Absent ''invalid'' ''wrongpassword'' None None))) = [WARNING No_token_received]
   \<and> is_token_valid (environment refusing_service) (client Absent ''admin'' ''password123'' None None)
     = (False, client Absent ''admin'' ''password123'' None None)
   \<and> authenticate (environment refusing_service) (client Absent ''admin'' ''password123'' None None)
     = (Inr \<lparr>status_code = 403, content = ''Forbidden''\<rparr>,
        (client Absent ''admin'' ''password123'' None None)
          \<lparr>sent := [POST_auth ''https://restful-booker.herokuapp.com'' ''admin'' ''password123'']\<rparr>)\<close>
proof -
  let ?w = "client Absent ''admin'' ''password123'' None None"
  let ?v = "client Absent ''invalid'' ''wrongpassword'' None None"
  let ?E = "environment service"
  let ?R = "environment refusing_service"
  have v1: "is_token_valid ?E ?w = (False, ?w)"
    and v2: "is_token_valid ?E ?v = (False, ?v)"
    and v3: "is_token_valid ?R ?w = (False, ?w)"
    by (simp_all add: is_token_valid_def truthy_str_def client_def)
  have s1: \<open>server ?E (sent ?w) (POST_auth (self_base_url ?w) (self_username ?w) (self_password ?w))
     = Returns \<lparr>status_code = 200, content = ''{"token":"abc123"}''\<rparr>\<close>
    and s2: \<open>server ?E (sent ?v) (POST_auth (self_base_url ?v) (self_username ?v) (self_password ?v))
     = Returns \<lparr>status_code = 200, content = ''{"reason":"Bad credentials"}''\<rparr>\<close>
    and s3: \<open>server ?R (sent ?w) (POST_auth (self_base_url ?w) (self_username ?w) (self_password ?w))
     = Returns \<lparr>status_code = 403, content = ''Forbidden''\<rparr>\<close>
    by (simp_all add: scenario_defs)
  have j1: \<open>response_json ?E ''{"token":"abc123"}''
     = Inr \<lparr>token_member = Some ''abc123'', bookingid_member = None\<rparr>\<close>
    and j2: \<open>response_json ?E ''{"reason":"Bad credentials"}''
     = Inr \<lparr>token_member = None, bookingid_member = None\<rparr>\<close>
    by (simp_all add: scenario_defs)
  have l: "load_data Absent = Inr empty_ledger" "data_file ?w = Absent" "data_file ?v = Absent"
    "logged ?w = []" "logged ?v = []"
    by (simp_all add: load_data_def client_def)
  have c: "clock ?E (ticks ?w) + one_hour = 3600000000" "sent ?w = []"
    "self_base_url ?w = ''https://restful-booker.herokuapp.com''"
    "self_username ?w = ''admin''" "self_password ?w = ''password123''"
    by (simp_all add: scenario_defs one_hour_def)
  from authenticate_remote [OF v1 s1,
      of "\<lparr>token_member = Some ''abc123'', bookingid_member = None\<rparr>" "''abc123''" empty_ledger]
    authenticate_remote [OF v2 s2, of "\<lparr>token_member = None, bookingid_member = None\<rparr>"]
    authenticate_remote [OF v3 s3]
    v1 v2 v3 j1 j2 l c
  show ?thesis
    by (auto simp: truthy_str_def)
qed

text \<open>
  C8 as stated, with every status 200 setting the expiry and persisting the token, fails:
  for credentials the service does not know it answers 200 with a reason and no token, and
  the client then has no expiry and the store no token; the call logs the warning
  \<^verbatim>\<open>Authentication succeeded but no token received\<close>.
\<close>

theorem authenticate_without_token:
  \<open>authenticate (environment service) (client Absent ''invalid'' ''wrongpassword'' None None)
     = (Inr \<lparr>status_code = 200, content = ''{"reason":"Bad credentials"}''\<rparr>,
        \<lparr>data_file = Absent, self_base_url = ''https://restful-booker.herokuapp.com'',
         self_username = ''invalid'', self_password = ''wrongpassword'',
         self_token = None, self_token_expiry = None,
         sent = [POST_auth ''https://restful-booker.herokuapp.com'' ''invalid'' ''wrongpassword''],
         ticks = 0, logged = [WARNING No_token_received]\<rparr>)
   \<and> get_token Absent = Inr None\<close>
  by (simp add: scenario_defs store_defs session_defs)

subsection \<open>Recovery at construction\<close>

lemma attempt_self_healing_expiry:
  assumes "attempt_self_healing w = (r, w')"
  shows "self_token_expiry w' = self_token_expiry w \<and> sent w' = sent w
     \<and> data_file w' = data_file w
     \<and> (r = Inr () \<longrightarrow> (\<exists>st. get_token (data_file w) = Inr st
           \<and> self_token w' = (if truthy_str st then st else self_token w)))"
  using assms
  by (auto simp: attempt_self_healing_def logger_def Let_def split: sum.splits if_splits)

text \<open>
  C10. A client whose construction succeeded has no expiry; its token is the stored token
  when that is non-empty and \<^verbatim>\<open>None\<close> otherwise. So \<^verbatim>\<open>_is_token_valid()\<close> is false, and
  \<^verbatim>\<open>authenticate()\<close> called on the new client sends the request to the service, whatever
  the answer.
\<close>

theorem recovered_token_not_valid:
  assumes "init E username password w0 = (Inr (), w)"
  shows "self_token_expiry w = None
     \<and> (\<exists>st. get_token (data_file w0) = Inr st
           \<and> self_token w = (if truthy_str st then st else None))
     \<and> is_token_valid E w = (False, w)
     \<and> (\<exists>r w'. authenticate E w = (r, w')
           \<and> sent w' = sent w @ [POST_auth (self_base_url w) (self_username w) (self_password w)])"
proof -
  obtain wi where wi: "attempt_self_healing wi = (Inr (), w)"
    and fresh: "self_token wi = None" "self_token_expiry wi = None" "data_file wi = data_file w0"
    using assms by (simp add: init_def)
  note h = attempt_self_healing_expiry [OF wi]
  have e: "self_token_expiry w = None"
    using h fresh by simp
  have t: "\<exists>st. get_token (data_file w0) = Inr st
           \<and> self_token w = (if truthy_str st then st else None)"
    using h fresh by auto
  have v: "is_token_valid E w = (False, w)"
    using e by (rule is_token_valid_no_expiry)
  have "\<exists>r w'. authenticate E w = (r, w')
           \<and> sent w' = sent w @ [POST_auth (self_base_url w) (self_username w) (self_password w)]"
    using v
    by (auto simp: authenticate_def send_def datetime_now_def timed_write_def logger_def Let_def
        split: reply.splits sum.splits option.splits)
  with e t v show ?thesis by blast
qed

text \<open>A client constructed on a store that holds the token of an earlier process.\<close>

theorem recovered_token_not_valid_witness:
  "fst (init (environment service) None None
          (client (ledger_with (Some ''abc123'') []) [] [] None None)) = Inr ()
   \<and> self_token (snd (init (environment service) None None
          (client (ledger_with (Some ''abc123'') []) [] [] None None))) = Some ''abc123''
   \<and> self_token_expiry (snd (init (environment service) None None
          (client (ledger_with (Some ''abc123'') []) [] [] None None))) = None
   \<and> sent (snd (authenticate (environment service) (snd (init (environment service) None None
          (client (ledger_with (Some ''abc123'') []) [] [] None None)))))
     = [POST_auth ''https://restful-booker.herokuapp.com'' ''admin'' ''password123'']"
proof -
  let ?E = "environment service"
  let ?start = "client (ledger_with (Some ''abc123'') []) [] [] None None"
  let ?w = "snd (init ?E None None ?start)"
  have w: "?w = \<lparr>data_file = ledger_with (Some ''abc123'') [],
        self_base_url = ''https://restful-booker.herokuapp.com'',
        self_username = ''admin'', self_password = ''password123'',
        self_token = Some ''abc123'', self_token_expiry = None,
        sent = [], ticks = 0, logged = [INFO Recovered_token]\<rparr>"
    and ok: "fst (init ?E None None ?start) = Inr ()"
    by (simp_all add: scenario_defs store_defs session_defs)
  from ok have h: "init ?E None None ?start = (Inr (), ?w)"
    by (simp add: prod_eq_iff)
  from recovered_token_not_valid [OF h] ok w show ?thesis
    by auto
qed

subsection \<open>Tracking a created booking\<close>

text \<open>
  What \<^verbatim>\<open>create_booking\<close> does for an id other than 0. Let the service answer its request
  with the response \<open>r\<close>. When \<open>r\<close> has status 200 and a body whose \<^verbatim>\<open>bookingid\<close> is a
  non-zero integer \<open>i\<close>, and the store is readable, the call returns \<open>r\<close> and \<open>i\<close> is
  among the ids \<^verbatim>\<open>get_booking_ids()\<close> then returns. When \<open>r\<close> has any other status, the
  call returns \<open>r\<close> and the store is as before.
\<close>

lemma create_booking_tracks:
  assumes "server E (sent w) (POST_booking (self_base_url w) booking) = Returns r"
  shows "(status_code r = 200 \<and> response_json E (content r) = Inr body
            \<and> bookingid_member body = Some i \<and> i \<noteq> 0 \<and> load_data (data_file w) = Inr d \<longrightarrow>
          (\<exists>w' ids. create_booking E booking w = (Inr r, w')
             \<and> get_booking_ids (data_file w') = Inr ids \<and> i \<in> set ids))
       \<and> (status_code r \<noteq> 200 \<longrightarrow>
          (\<exists>w'. create_booking E booking w = (Inr r, w') \<and> data_file w' = data_file w))"
  using assms
  by (auto simp: create_booking_def send_def timed_write_def logger_def store_booking_id_ok
      get_booking_ids_def)

text \<open>
  C3, at the id 0. The service answers status 200 with the body \<^verbatim>\<open>{"bookingid":0}\<close> to a
  client on an empty store. \<^verbatim>\<open>create_booking\<close> returns that response and has stored
  nothing: \<^verbatim>\<open>if booking_id:\<close> is false for 0, the store is not written and
  \<^verbatim>\<open>get_booking_ids()\<close> returns the empty list. The store itself takes the id:
  \<^verbatim>\<open>SelfHealing.store_booking_id(0)\<close> on the same store leaves it tracked.
\<close>

theorem create_booking_zero_id:
  \<open>create_booking (environment zero_id_service) [(''firstname'', ''John'')]
          (client Absent ''admin'' ''password123'' None None)
     = (Inr \<lparr>status_code = 200, content = ''{"bookingid":0}''\<rparr>,
        (client Absent ''admin'' ''password123'' None None)
          \<lparr>sent := [POST_booking ''https://restful-booker.herokuapp.com''
                      [(''firstname'', ''John'')]]\<rparr>)
   \<and> response_json (environment zero_id_service) ''{"bookingid":0}''
     = Inr \<lparr>token_member = None, bookingid_member = Some 0\<rparr>
   \<and> get_booking_ids (data_file (snd (create_booking (environment zero_id_service)
          [(''firstname'', ''John'')] (client Absent ''admin'' ''password123'' None None))))
     = Inr []
   \<and> store_booking_id 0 0 Absent
     = Inr (Document \<lparr>token = None, token_timestamp = None, booking_ids = Some [0],
              last_updated = Some 0\<rparr>)
   \<and> get_booking_ids (Document \<lparr>token = None, token_timestamp = None, booking_ids = Some [0],
              last_updated = Some 0\<rparr>)
     = Inr [0]\<close>
  by (simp add: scenario_defs store_defs session_defs)

end
